theory Spec2Isabelle
  imports Complex_Main "HOL-Library.AList"
begin

section \<open>The sliding-window rate limiter of app.py\<close>

text \<open>
  \<^verbatim>\<open>time.time()\<close> returns a float; timestamps are modelled as real numbers, so
  the subtraction \<^verbatim>\<open>now_ts - window[0]\<close> is exact.  The module-level
  \<^verbatim>\<open>request_log\<close> is a \<^verbatim>\<open>defaultdict(deque)\<close>: a dictionary from the client
  address to its window, where reading a missing key stores an empty window under it.
  The window is a list, oldest timestamp first.
\<close>

definition RATE_LIMIT_MAX :: nat where
  "RATE_LIMIT_MAX = 5"

definition RATE_LIMIT_WINDOW :: real where
  "RATE_LIMIT_WINDOW = 600"

type_synonym request_log = "string \<rightharpoonup> real list"

text \<open>The value \<^verbatim>\<open>request_log[ip]\<close> reads: the empty deque for a missing key.\<close>

definition window_of :: "request_log \<Rightarrow> string \<Rightarrow> real list" where
  "window_of rl ip = (case rl ip of None \<Rightarrow> [] | Some w \<Rightarrow> w)"

text \<open>
  The loop of \<^verbatim>\<open>_clear_expired\<close>:
  \<^verbatim>\<open>while window and now_ts - window[0] > RATE_LIMIT_WINDOW: window.popleft()\<close>.
\<close>

fun popleft_expired :: "real \<Rightarrow> real list \<Rightarrow> real list" where
  "popleft_expired now_ts [] = []"
| "popleft_expired now_ts (t # w) =
     (if now_ts - t > RATE_LIMIT_WINDOW then popleft_expired now_ts w else t # w)"

definition clear_expired :: "string \<Rightarrow> real \<Rightarrow> request_log \<Rightarrow> request_log" where
  "clear_expired ip now_ts rl = rl(ip \<mapsto> popleft_expired now_ts (window_of rl ip))"

text \<open>
  \<^verbatim>\<open>is_rate_limited\<close>, with the clock reading \<^verbatim>\<open>now_ts\<close> as a parameter.
  The result is the returned flag (\<open>True\<close>: limited) and the updated log.
\<close>

definition is_rate_limited :: "string \<Rightarrow> real \<Rightarrow> request_log \<Rightarrow> bool \<times> request_log" where
  "is_rate_limited ip now_ts rl =
     (let rl1 = clear_expired ip now_ts rl in
      if length (window_of rl1 ip) \<ge> RATE_LIMIT_MAX then (True, rl1)
      else (False, rl1(ip \<mapsto> window_of rl1 ip @ [now_ts])))"

text \<open>
  A sequence of calls of \<^verbatim>\<open>is_rate_limited\<close> for one address, at the given clock
  readings: the flags returned, in order, and the log afterwards.
\<close>

fun limited_seq :: "string \<Rightarrow> real list \<Rightarrow> request_log \<Rightarrow> bool list \<times> request_log" where
  "limited_seq ip [] rl = ([], rl)"
| "limited_seq ip (t # ts) rl =
     (case is_rate_limited ip t rl of
        (b, rl1) \<Rightarrow> (case limited_seq ip ts rl1 of (bs, rl2) \<Rightarrow> (b # bs, rl2)))"

text \<open>A sequence of calls for any addresses: only the log afterwards.\<close>

fun run_calls :: "(string \<times> real) list \<Rightarrow> request_log \<Rightarrow> request_log" where
  "run_calls [] rl = rl"
| "run_calls ((ip, t) # cs) rl = run_calls cs (snd (is_rate_limited ip t rl))"

section \<open>Python values, strings and regular expressions\<close>

text \<open>
  The exceptions that the modelled code can raise.  \<open>BadRequest\<close> is what
  \<^verbatim>\<open>request.get_json()\<close> raises on a body that is not JSON; \<open>NotFound\<close> stands
  for a request that no route serves.
\<close>

datatype exn = BadRequest | NotFound | AttributeError | TypeError | ValueError

text \<open>
  The values \<^verbatim>\<open>json.loads\<close> produces.  Numbers are modelled as reals; an object is
  the association list of its items (Python's dict keeps one item per key, so the list
  is read with \<open>map_of\<close>).
\<close>

datatype json =
    JNull
  | JBool bool
  | JNum real
  | JStr string
  | JArr "json list"
  | JObj "(string \<times> json) list"

text \<open>Python's truth value of such a value (\<^verbatim>\<open>if v\<close>, \<^verbatim>\<open>not v\<close>, \<^verbatim>\<open>v or d\<close>).\<close>

fun truthy :: "json \<Rightarrow> bool" where
  "truthy JNull = False"
| "truthy (JBool b) = b"
| "truthy (JNum x) = (x \<noteq> 0)"
| "truthy (JStr s) = (s \<noteq> [])"
| "truthy (JArr xs) = (xs \<noteq> [])"
| "truthy (JObj kvs) = (kvs \<noteq> [])"

text \<open>
  \<^verbatim>\<open>payload.get(key)\<close> and \<^verbatim>\<open>payload.get(key, '')\<close> on a dict: a missing key
  gives \<^verbatim>\<open>None\<close> (here \<open>JNull\<close>) or the default.
\<close>

definition dict_get :: "(string \<times> json) list \<Rightarrow> string \<Rightarrow> json" where
  "dict_get d k = (case map_of d k of None \<Rightarrow> JNull | Some v \<Rightarrow> v)"

definition dict_get_default :: "(string \<times> json) list \<Rightarrow> string \<Rightarrow> json \<Rightarrow> json" where
  "dict_get_default d k dflt = (case map_of d k of None \<Rightarrow> dflt | Some v \<Rightarrow> v)"

text \<open>
  Characters are the code points below 256.  \<^verbatim>\<open>str.isspace\<close>, which both
  \<^verbatim>\<open>str.strip()\<close> and the regular expression class \<^verbatim>\<open>\s\<close> use, holds there for
  the code points 9 to 13, 28 to 32, 133 and 160.
\<close>

definition isspace :: "char \<Rightarrow> bool" where
  "isspace c = (c \<in> set [CHR 0x09, CHR 0x0A, CHR 0x0B, CHR 0x0C, CHR 0x0D,
                          CHR 0x1C, CHR 0x1D, CHR 0x1E, CHR 0x1F, CHR 0x20,
                          CHR 0x85, CHR 0xA0])"

definition strip :: "string \<Rightarrow> string" where
  "strip s = rev (dropWhile isspace (rev (dropWhile isspace s)))"

text \<open>
  \<^verbatim>\<open>value.strip()\<close> on a value taken from the payload: only a string has the
  method; on \<^verbatim>\<open>None\<close>, a number, a boolean, a list or a dict the attribute lookup
  raises \<^verbatim>\<open>AttributeError\<close>.
\<close>

fun strip_method :: "json \<Rightarrow> exn + string" where
  "strip_method (JStr s) = Inr (strip s)"
| "strip_method v = Inl AttributeError"

text \<open>
  Regular expressions, as far as \<^verbatim>\<open>EMAIL_REGEX\<close> needs them: character classes,
  sequence, alternative and repetition, matched against a whole string by derivatives.
\<close>

datatype rx =
    Never
  | Empty
  | Class "char \<Rightarrow> bool"
  | Or rx rx
  | Then rx rx
  | Many rx

fun accepts_empty :: "rx \<Rightarrow> bool" where
  "accepts_empty Never = False"
| "accepts_empty Empty = True"
| "accepts_empty (Class p) = False"
| "accepts_empty (Or r s) = (accepts_empty r \<or> accepts_empty s)"
| "accepts_empty (Then r s) = (accepts_empty r \<and> accepts_empty s)"
| "accepts_empty (Many r) = True"

fun after_char :: "char \<Rightarrow> rx \<Rightarrow> rx" where
  "after_char c Never = Never"
| "after_char c Empty = Never"
| "after_char c (Class p) = (if p c then Empty else Never)"
| "after_char c (Or r s) = Or (after_char c r) (after_char c s)"
| "after_char c (Then r s) =
     (if accepts_empty r then Or (Then (after_char c r) s) (after_char c s)
      else Then (after_char c r) s)"
| "after_char c (Many r) = Then (after_char c r) (Many r)"

fun fullmatch :: "rx \<Rightarrow> string \<Rightarrow> bool" where
  "fullmatch r [] = accepts_empty r"
| "fullmatch r (c # cs) = fullmatch (after_char c r) cs"

text \<open>\<^verbatim>\<open>r+\<close> is \<^verbatim>\<open>r\<close> followed by \<^verbatim>\<open>r*\<close>.\<close>

definition one_or_more :: "rx \<Rightarrow> rx" where
  "one_or_more r = Then r (Many r)"

text \<open>The class \<^verbatim>\<open>[^@\s]\<close>.\<close>

definition not_at_space :: "char \<Rightarrow> bool" where
  "not_at_space c = (c \<noteq> CHR ''@'' \<and> \<not> isspace c)"

text \<open>
  \<^verbatim>\<open>EMAIL_REGEX = re.compile(r"^[^@\s]+@[^@\s]+\.[^@\s]+$")\<close>: the part between
  the anchors.
\<close>

definition EMAIL_REGEX :: rx where
  "EMAIL_REGEX =
     Then (one_or_more (Class not_at_space))
       (Then (Class (\<lambda>c. c = CHR ''@''))
          (Then (one_or_more (Class not_at_space))
             (Then (Class (\<lambda>c. c = CHR ''.''))
                (one_or_more (Class not_at_space)))))"

text \<open>
  \<^verbatim>\<open>EMAIL_REGEX.match(s)\<close> as a truth value.  \<^verbatim>\<open>^\<close> anchors the match at the
  start; without \<^verbatim>\<open>re.MULTILINE\<close>, \<^verbatim>\<open>$\<close> matches at the end of the string and
  also just before a newline that ends the string.
\<close>

definition EMAIL_REGEX_match :: "string \<Rightarrow> bool" where
  "EMAIL_REGEX_match s =
     (fullmatch EMAIL_REGEX s \<or>
      (s \<noteq> [] \<and> last s = CHR 0x0A \<and> fullmatch EMAIL_REGEX (butlast s)))"

text \<open>
  \<^verbatim>\<open>re.sub(r'<[^>]+>', '', value)\<close>: scanning from the left, a \<^verbatim>\<open><\<close> followed by
  at least one character other than \<^verbatim>\<open>>\<close> and then a \<^verbatim>\<open>>\<close> is removed up to and
  including that first \<^verbatim>\<open>>\<close>; the scan goes on behind it.  Anything else is kept.
\<close>

function remove_tags :: "string \<Rightarrow> string" where
  "remove_tags [] = []"
| "remove_tags (c # cs) =
     (if c = CHR ''<'' \<and> takeWhile (\<lambda>x. x \<noteq> CHR ''>'') cs \<noteq> []
         \<and> dropWhile (\<lambda>x. x \<noteq> CHR ''>'') cs \<noteq> []
      then remove_tags (tl (dropWhile (\<lambda>x. x \<noteq> CHR ''>'') cs))
      else c # remove_tags cs)"
  by pat_completeness auto
termination
proof (relation "measure length")
  show "wf (measure length)" by simp
next
  fix c :: char and cs :: string
  have "length (tl (dropWhile (\<lambda>x. x \<noteq> CHR ''>'') cs)) \<le> length cs"
    using length_dropWhile_le [of "\<lambda>x. x \<noteq> CHR ''>''" cs] by simp
  then show "(tl (dropWhile (\<lambda>x. x \<noteq> CHR ''>'') cs), c # cs) \<in> measure length"
    by simp
next
  fix c :: char and cs :: string
  show "(cs, c # cs) \<in> measure length" by simp
qed

text \<open>
  \<^verbatim>\<open>sanitize\<close>, applied to a value of the payload.  A falsy value gives the empty
  string; \<^verbatim>\<open>re.sub\<close> raises \<^verbatim>\<open>TypeError\<close> on a truthy value that is not a string.
\<close>

definition sanitize :: "json \<Rightarrow> exn + string" where
  "sanitize v =
     (if \<not> truthy v then Inr []
      else (case v of JStr s \<Rightarrow> Inr (strip (remove_tags s)) | _ \<Rightarrow> Inl TypeError))"

text \<open>\<^verbatim>\<open>int(x)\<close> on a float truncates towards zero.\<close>

definition int_of_float :: "real \<Rightarrow> int" where
  "int_of_float x = (if x \<ge> 0 then \<lfloor>x\<rfloor> else \<lceil>x\<rceil>)"

text \<open>
  \<^verbatim>\<open>int(s)\<close> on a string: surrounding whitespace is ignored, a sign may lead, and
  the rest is decimal digits, where single underscores may stand between digits.
  \<open>None\<close> is the \<^verbatim>\<open>ValueError\<close>.
\<close>

definition isdigit :: "char \<Rightarrow> bool" where
  "isdigit c = (c \<in> set ''0123456789'')"

fun digits_value :: "int \<Rightarrow> bool \<Rightarrow> string \<Rightarrow> int option" where
  "digits_value acc after_digit [] = (if after_digit then Some acc else None)"
| "digits_value acc after_digit (c # cs) =
     (if isdigit c then digits_value (10 * acc + (of_char c - 48)) True cs
      else if c = CHR ''_'' \<and> after_digit then digits_value acc False cs
      else None)"

definition int_of_str :: "string \<Rightarrow> int option" where
  "int_of_str s =
     (case strip s of
        [] \<Rightarrow> None
      | c # cs \<Rightarrow>
          if c = CHR ''-'' then map_option uminus (digits_value 0 False cs)
          else if c = CHR ''+'' then digits_value 0 False cs
          else digits_value 0 False (c # cs))"

text \<open>\<^verbatim>\<open>str.lower()\<close>, on the letters A to Z.\<close>

definition lower :: "string \<Rightarrow> string" where
  "lower s = map (\<lambda>c. if (65::nat) \<le> of_char c \<and> of_char c \<le> (90::nat)
                        then char_of (of_char c + (32::nat)) else c) s"

section \<open>The session, the outside world and the mail sender\<close>

text \<open>
  The two keys of the Flask session that the code uses.  \<open>None\<close> is a key that is
  not set (\<^verbatim>\<open>session.get\<close> gives \<^verbatim>\<open>None\<close>).
\<close>

record session =
  csrf_token :: "string option"
  form_time :: "int option"

text \<open>
  What a message handed to the mail library consists of, and the library itself: whether
  the header assignments and \<^verbatim>\<open>set_content\<close> go through (they stand outside the
  \<^verbatim>\<open>try\<close>; \<open>False\<close> is a \<^verbatim>\<open>ValueError\<close>), and whether the SMTP session
  inside the \<^verbatim>\<open>try\<close> completes (arguments: \<^verbatim>\<open>use_ssl\<close>, \<^verbatim>\<open>use_tls\<close>, the
  message).
\<close>

record email_message =
  msg_subject :: string
  msg_from :: string
  msg_to :: string
  msg_reply_to :: "string option"
  msg_content :: string

record mail_library =
  headers_accepted :: "email_message \<Rightarrow> bool"
  smtp_completes :: "bool \<Rightarrow> bool \<Rightarrow> email_message \<Rightarrow> bool"

text \<open>
  Everything one request reads from outside the program: the three readings of
  \<^verbatim>\<open>time.time()\<close> (in \<^verbatim>\<open>is_rate_limited\<close>, in the handler's timing check and in
  \<^verbatim>\<open>issue_csrf_token\<close>), the value of \<^verbatim>\<open>secrets.token_hex(16)\<close>, the text of
  \<^verbatim>\<open>datetime.utcnow().isoformat()\<close>, the process environment and the mail library.
\<close>

record outside =
  now_limit :: real
  now_check :: real
  now_issue :: real
  token_hex :: string
  utcnow_iso :: string
  environ :: "string \<rightharpoonup> string"
  mailer :: mail_library

definition issue_csrf_token :: "outside \<Rightarrow> session \<Rightarrow> string \<times> session" where
  "issue_csrf_token w s =
     (token_hex w,
      s\<lparr>csrf_token := Some (token_hex w), form_time := Some (int_of_float (now_issue w))\<rparr>)"

text \<open>\<^verbatim>\<open>os.environ.get(key, default)\<close>.\<close>

definition environ_get :: "(string \<rightharpoonup> string) \<Rightarrow> string \<Rightarrow> string \<Rightarrow> string" where
  "environ_get env k dflt = (case env k of None \<Rightarrow> dflt | Some v \<Rightarrow> v)"

text \<open>The truth value of an optional string (\<^verbatim>\<open>None\<close> and \<^verbatim>\<open>''\<close> are falsy).\<close>

definition nonempty :: "string option \<Rightarrow> bool" where
  "nonempty x = (case x of None \<Rightarrow> False | Some v \<Rightarrow> v \<noteq> [])"

text \<open>
  \<^verbatim>\<open>send_email\<close>.  The port is parsed before the configuration is checked and
  outside the \<^verbatim>\<open>try\<close>.  \<^verbatim>\<open>reply_to\<close> is an optional string.
\<close>

definition send_email :: "outside \<Rightarrow> string \<Rightarrow> string option \<Rightarrow> string \<Rightarrow> exn + (bool \<times> string)" where
  "send_email w subject reply_to body =
     (let server = environ w ''MAIL_SERVER'' in
      case int_of_str (environ_get (environ w) ''MAIL_PORT'' ''587'') of
        None \<Rightarrow> Inl ValueError
      | Some port \<Rightarrow>
         (let username = environ w ''MAIL_USERNAME'';
              password = environ w ''MAIL_PASSWORD'';
              use_tls = (lower (environ_get (environ w) ''MAIL_USE_TLS'' ''true'') = ''true'');
              use_ssl = (lower (environ_get (environ w) ''MAIL_USE_SSL'' ''false'') = ''true'');
              destination = environ w ''DESTINATION_EMAIL''
          in
          if \<not> (nonempty server \<and> port \<noteq> 0 \<and> nonempty username \<and> nonempty password
                  \<and> nonempty destination)
          then Inr (False, ''Email configuration missing. Please set environment variables.'')
          else
            (let msg = \<lparr>msg_subject = subject,
                        msg_from = environ_get (environ w) ''MAIL_USERNAME'' [],
                        msg_to = environ_get (environ w) ''DESTINATION_EMAIL'' [],
                        msg_reply_to = (if nonempty reply_to then reply_to else None),
                        msg_content = body\<rparr>
             in
             if \<not> headers_accepted (mailer w) msg then Inl ValueError
             else if \<not> smtp_completes (mailer w) use_ssl use_tls msg
             then Inr (False, ''Unable to send email at this time.'')
             else Inr (True, ''Request sent successfully.''))))"

text \<open>
  The sanitised payload is a dict of strings that holds every key the senders read, so
  \<^verbatim>\<open>payload[key]\<close> is a plain lookup.
\<close>

definition item :: "(string \<times> string) list \<Rightarrow> string \<Rightarrow> string" where
  "item d k = (case map_of d k of None \<Rightarrow> [] | Some v \<Rightarrow> v)"

definition or_na :: "string \<Rightarrow> string" where
  "or_na v = (if v \<noteq> [] then v else ''N/A'')"

definition newline :: string where
  "newline = [CHR 0x0A]"

definition send_care_request_email :: "outside \<Rightarrow> (string \<times> string) list \<Rightarrow> exn + (bool \<times> string)" where
  "send_care_request_email w payload =
     (let body =
        ''New care request submitted on '' @ utcnow_iso w @ '' UTC'' @ newline @ newline @
        ''Full Name: '' @ item payload ''full_name'' @ newline @
        ''Phone: '' @ item payload ''phone'' @ newline @
        ''Email: '' @ item payload ''email'' @ newline @
        ''Address: '' @ item payload ''address'' @ newline @
        ''Preferred Start Date: '' @ item payload ''start_date'' @ newline @
        ''Type of Care: '' @ item payload ''care_type'' @ newline @
        ''Additional Notes: '' @ or_na (item payload ''notes'') @ newline;
          subject = ''New Care Request from '' @ item payload ''full_name''
      in send_email w subject (map_of payload ''email'') body)"

definition send_appointment_email :: "outside \<Rightarrow> (string \<times> string) list \<Rightarrow> exn + (bool \<times> string)" where
  "send_appointment_email w payload =
     (let body =
        ''New in-person appointment request submitted on '' @ utcnow_iso w @ '' UTC''
          @ newline @ newline @
        ''Full Name: '' @ item payload ''full_name'' @ newline @
        ''Email: '' @ item payload ''email'' @ newline @
        ''Phone: '' @ item payload ''phone'' @ newline @
        ''Preferred Date: '' @ item payload ''preferred_date'' @ newline @
        ''Preferred Time: '' @ item payload ''preferred_time'' @ newline @
        ''Reason: '' @ or_na (item payload ''reason'') @ newline;
          subject = ''Appointment Request from '' @ item payload ''full_name''
      in send_email w subject (map_of payload ''email'') body)"

section \<open>Requests, responses and the handlers\<close>

text \<open>
  What the code reads of a request: the endpoint Flask resolved, the method, the
  \<^verbatim>\<open>X-Forwarded-For\<close> header, the peer address, whether the content type is JSON,
  and the parsed body (\<open>None\<close>: the body is not JSON, and \<^verbatim>\<open>get_json()\<close> raises).
\<close>

record request =
  endpoint :: string
  http_method :: string
  x_forwarded_for :: "string option"
  remote_addr :: "string option"
  is_json :: bool
  json_body :: "json option"

text \<open>The JSON body of a response and its status code.\<close>

record response =
  status :: nat
  success :: bool
  message :: string
  errors :: "(string \<times> string) list option"
  resp_csrf_token :: string

text \<open>A rendered page: the template and the token passed to it, if any.\<close>

datatype reply = JsonReply response | PageReply string "string option"

text \<open>The state that outlives a request: the module's log and the client's session.\<close>

record app_state =
  request_log :: request_log
  session :: session

text \<open>
  \<^verbatim>\<open>jsonify({..., 'csrf_token': issue_csrf_token()}), code\<close>: every JSON response of
  the code is built this way, so the token is issued while the response is built.
\<close>

definition respond ::
  "nat \<Rightarrow> bool \<Rightarrow> string \<Rightarrow> (string \<times> string) list option \<Rightarrow> outside \<Rightarrow> app_state
     \<Rightarrow> response \<times> app_state" where
  "respond code ok msg errs w st =
     (case issue_csrf_token w (session st) of
        (tok, s1) \<Rightarrow>
          (\<lparr>status = code, success = ok, message = msg, errors = errs, resp_csrf_token = tok\<rparr>,
           st\<lparr>session := s1\<rparr>))"

text \<open>
  \<^verbatim>\<open>client_ip = request.headers.get('X-Forwarded-For', request.remote_addr)\<close>.
\<close>

definition client_ip :: "request \<Rightarrow> string option" where
  "client_ip req = (case x_forwarded_for req of Some h \<Rightarrow> Some h | None \<Rightarrow> remote_addr req)"

text \<open>
  The \<^verbatim>\<open>before_request\<close> hook.  \<open>None\<close> lets the request go on to its handler;
  a response ends the request.  \<^verbatim>\<open>if client_ip and is_rate_limited(client_ip)\<close>
  calls the limiter only for an address that is neither \<^verbatim>\<open>None\<close> nor empty.
\<close>

definition apply_simple_rate_limit ::
  "request \<Rightarrow> outside \<Rightarrow> app_state \<Rightarrow> response option \<times> app_state" where
  "apply_simple_rate_limit req w st =
     (if endpoint req = ''request_care'' \<and> http_method req = ''POST'' then
        (case client_ip req of
           None \<Rightarrow> (None, st)
         | Some ip \<Rightarrow>
             if ip = [] then (None, st)
             else (case is_rate_limited ip (now_limit w) (request_log st) of
                     (limited, rl1) \<Rightarrow>
                       if limited
                       then (case respond 429 False ''Too many requests. Please try later.''
                                    None w (st\<lparr>request_log := rl1\<rparr>) of
                               (r, st1) \<Rightarrow> (Some r, st1))
                       else (None, st\<lparr>request_log := rl1\<rparr>)))
      else (None, st))"

text \<open>
  The loop over \<^verbatim>\<open>required_fields.items()\<close>, with the dict \<^verbatim>\<open>errors\<close> as an
  accumulator, and the check of the email that follows it.  Both handlers run this
  code, each with its own \<^verbatim>\<open>required_fields\<close>.
\<close>

fun required_loop ::
  "(string \<times> json) list \<Rightarrow> (string \<times> string) list \<Rightarrow> (string \<times> string) list
     \<Rightarrow> exn + (string \<times> string) list" where
  "required_loop payload [] errs = Inr errs"
| "required_loop payload ((field, msg) # rest) errs =
     (case strip_method (dict_get_default payload field (JStr [])) of
        Inl e \<Rightarrow> Inl e
      | Inr v \<Rightarrow>
          required_loop payload rest (if v = [] then AList.update field msg errs else errs))"

definition field_errors ::
  "(string \<times> json) list \<Rightarrow> (string \<times> string) list \<Rightarrow> exn + (string \<times> string) list" where
  "field_errors payload required_fields =
     (case required_loop payload required_fields [] of
        Inl e \<Rightarrow> Inl e
      | Inr errs \<Rightarrow>
          (case strip_method (dict_get_default payload ''email'' (JStr [])) of
             Inl e \<Rightarrow> Inl e
           | Inr email_value \<Rightarrow>
               Inr (if email_value \<noteq> [] \<and> \<not> EMAIL_REGEX_match email_value
                    then AList.update ''email'' ''Please enter a valid email address.'' errs
                    else errs)))"

text \<open>
  The dict comprehension \<^verbatim>\<open>{key: sanitize(payload.get(key, '')) for key in [...]}\<close>,
  with the dict under construction as an accumulator.
\<close>

fun sanitize_keys ::
  "(string \<times> json) list \<Rightarrow> string list \<Rightarrow> (string \<times> string) list
     \<Rightarrow> exn + (string \<times> string) list" where
  "sanitize_keys payload [] d = Inr d"
| "sanitize_keys payload (k # ks) d =
     (case sanitize (dict_get_default payload k (JStr [])) of
        Inl e \<Rightarrow> Inl e
      | Inr v \<Rightarrow> sanitize_keys payload ks (AList.update k v d))"

text \<open>
  \<^verbatim>\<open>not csrf_token or csrf_token != session.get('csrf_token')\<close>: the session holds a
  string or nothing, and a value that is not a string is unequal to both.
\<close>

definition token_mismatch :: "json \<Rightarrow> string option \<Rightarrow> bool" where
  "token_mismatch supplied stored =
     (if \<not> truthy supplied then True
      else (case supplied of
              JStr t \<Rightarrow> stored \<noteq> Some t
            | JNull \<Rightarrow> stored \<noteq> None
            | _ \<Rightarrow> True))"

text \<open>
  \<^verbatim>\<open>not form_time or time.time() - form_time < 3\<close>.
\<close>

definition too_quick :: "int option \<Rightarrow> real \<Rightarrow> bool" where
  "too_quick ft now =
     (case ft of None \<Rightarrow> True | Some t \<Rightarrow> t = 0 \<or> now - of_int t < 3)"

text \<open>
  The body that \<^verbatim>\<open>request_care\<close> and \<^verbatim>\<open>submit_appointment\<close> share line by line;
  they differ in the name of the honeypot field, in \<^verbatim>\<open>required_fields\<close>, in the keys
  that are sanitised and in the function that sends the mail.  An exception leaves the
  state as it was at that point (nothing has been written before any of them).
\<close>

definition submission ::
  "string \<Rightarrow> (string \<times> string) list \<Rightarrow> string list
     \<Rightarrow> (outside \<Rightarrow> (string \<times> string) list \<Rightarrow> exn + (bool \<times> string))
     \<Rightarrow> request \<Rightarrow> outside \<Rightarrow> app_state \<Rightarrow> (exn + response) \<times> app_state" where
  "submission honeypot required_fields keys send req w st =
     (if \<not> is_json req then
        (case respond 400 False ''Invalid submission format.'' None w st of
           (r, st1) \<Rightarrow> (Inr r, st1))
      else
        (case json_body req of
           None \<Rightarrow> (Inl BadRequest, st)
         | Some parsed \<Rightarrow>
            (case (if truthy parsed then parsed else JObj []) of
               JObj payload \<Rightarrow>
                 if truthy (dict_get payload honeypot) then
                   (case respond 400 False ''Invalid submission.'' None w st of
                      (r, st1) \<Rightarrow> (Inr r, st1))
                 else if token_mismatch (dict_get payload ''csrf_token'') (csrf_token (session st)) then
                   (case respond 400 False ''Security token mismatch.'' None w st of
                      (r, st1) \<Rightarrow> (Inr r, st1))
                 else if too_quick (form_time (session st)) (now_check w) then
                   (case respond 400 False ''Submission too quick; suspected bot.'' None w st of
                      (r, st1) \<Rightarrow> (Inr r, st1))
                 else
                   (case field_errors payload required_fields of
                      Inl e \<Rightarrow> (Inl e, st)
                    | Inr errs \<Rightarrow>
                        if errs \<noteq> [] then
                          (case respond 400 False ''Please review highlighted fields.''
                                  (Some errs) w st of
                             (r, st1) \<Rightarrow> (Inr r, st1))
                        else
                          (case sanitize_keys payload keys [] of
                             Inl e \<Rightarrow> (Inl e, st)
                           | Inr safe_payload \<Rightarrow>
                               (case send w safe_payload of
                                  Inl e \<Rightarrow> (Inl e, st)
                                | Inr (ok, mail_message) \<Rightarrow>
                                    (case respond (if ok then 200 else 500) ok mail_message
                                            None w st of
                                       (r, st1) \<Rightarrow> (Inr r, st1)))))
             | _ \<Rightarrow> (Inl AttributeError, st))))"

definition care_required_fields :: "(string \<times> string) list" where
  "care_required_fields =
     [(''full_name'', ''Full name is required.''),
      (''phone'', ''Phone number is required.''),
      (''email'', ''Valid email is required.''),
      (''address'', ''Address is required.''),
      (''start_date'', ''Preferred start date is required.''),
      (''care_type'', ''Care type selection is required.'')]"

definition request_care :: "request \<Rightarrow> outside \<Rightarrow> app_state \<Rightarrow> (exn + response) \<times> app_state" where
  "request_care =
     submission ''service_interest'' care_required_fields
       [''full_name'', ''phone'', ''email'', ''address'', ''start_date'', ''care_type'', ''notes'']
       send_care_request_email"

definition appointment_required_fields :: "(string \<times> string) list" where
  "appointment_required_fields =
     [(''full_name'', ''Full name is required.''),
      (''email'', ''A valid email is required.''),
      (''phone'', ''Phone number is required.''),
      (''preferred_date'', ''Preferred date is required.''),
      (''preferred_time'', ''Preferred time is required.'')]"

definition submit_appointment :: "request \<Rightarrow> outside \<Rightarrow> app_state \<Rightarrow> (exn + response) \<times> app_state" where
  "submit_appointment =
     submission ''appointment_guard'' appointment_required_fields
       [''full_name'', ''email'', ''phone'', ''preferred_date'', ''preferred_time'', ''reason'']
       send_appointment_email"

text \<open>The page views: three of them issue a token for the form they render.\<close>

definition page_with_token :: "string \<Rightarrow> outside \<Rightarrow> app_state \<Rightarrow> reply \<times> app_state" where
  "page_with_token template w st =
     (case issue_csrf_token w (session st) of
        (tok, s1) \<Rightarrow> (PageReply template (Some tok), st\<lparr>session := s1\<rparr>))"

text \<open>
  One request from the hook to the reply: the hook runs first, and its response, if it
  gives one, is the reply; otherwise the view function of the endpoint runs.
\<close>

definition serve :: "request \<Rightarrow> outside \<Rightarrow> app_state \<Rightarrow> (exn + reply) \<times> app_state" where
  "serve req w st =
     (case apply_simple_rate_limit req w st of
        (Some r, st1) \<Rightarrow> (Inr (JsonReply r), st1)
      | (None, st1) \<Rightarrow>
          if endpoint req = ''index'' then
            (case page_with_token ''index.html'' w st1 of (p, st2) \<Rightarrow> (Inr p, st2))
          else if endpoint req = ''request_care'' then
            (case request_care req w st1 of (r, st2) \<Rightarrow> (map_sum id JsonReply r, st2))
          else if endpoint req = ''thank_you'' then
            (Inr (PageReply ''thank_you.html'' None), st1)
          else if endpoint req = ''contact'' then
            (case page_with_token ''contact.html'' w st1 of (p, st2) \<Rightarrow> (Inr p, st2))
          else if endpoint req = ''appointment'' then
            (case page_with_token ''appointment.html'' w st1 of (p, st2) \<Rightarrow> (Inr p, st2))
          else if endpoint req = ''team'' then
            (Inr (PageReply ''team.html'' None), st1)
          else if endpoint req = ''submit_appointment'' then
            (case submit_appointment req w st1 of (r, st2) \<Rightarrow> (map_sum id JsonReply r, st2))
          else (Inl NotFound, st1))"

section \<open>Vocabulary of the statements and sample requests\<close>

text \<open>The state after \<^verbatim>\<open>issue_csrf_token\<close> has run: only the session changes.\<close>

definition after_issue :: "outside \<Rightarrow> app_state \<Rightarrow> app_state" where
  "after_issue w st =
     st\<lparr>session := (session st)\<lparr>csrf_token := Some (token_hex w),
                                  form_time := Some (int_of_float (now_issue w))\<rparr>\<rparr>"

text \<open>The JSON response the code builds with the given status, flag, message and errors.\<close>

definition json_response ::
  "nat \<Rightarrow> bool \<Rightarrow> string \<Rightarrow> (string \<times> string) list option \<Rightarrow> outside \<Rightarrow> response" where
  "json_response code ok msg errs w =
     \<lparr>status = code, success = ok, message = msg, errors = errs,
      resp_csrf_token = token_hex w\<rparr>"

text \<open>A value of the payload that is a string.\<close>

fun is_str :: "json \<Rightarrow> bool" where
  "is_str (JStr s) = True"
| "is_str v = False"

text \<open>
  A sample of the outside world: a complete mail configuration, a mail library that
  accepts and delivers everything, and the clock at second 1005.
\<close>

definition sample_environ :: "string \<rightharpoonup> string" where
  "sample_environ =
     [''MAIL_SERVER'' \<mapsto> ''smtp.example.org'',
      ''MAIL_USERNAME'' \<mapsto> ''intake@example.org'',
      ''MAIL_PASSWORD'' \<mapsto> ''secret'',
      ''DESTINATION_EMAIL'' \<mapsto> ''office@example.org'']"

definition sample_mailer :: mail_library where
  "sample_mailer = \<lparr>headers_accepted = (\<lambda>m. True), smtp_completes = (\<lambda>use_ssl use_tls m. True)\<rparr>"

definition sample_outside :: outside where
  "sample_outside =
     \<lparr>now_limit = 1005, now_check = 1005, now_issue = 1005,
      token_hex = ''00112233445566778899aabbccddeeff'',
      utcnow_iso = ''2025-01-01T00:16:45'',
      environ = sample_environ,
      mailer = sample_mailer\<rparr>"

text \<open>
  A session whose token was issued at second 1000, with an empty log; and the same
  session with a log in which one address has used up its five requests.
\<close>

definition sample_session :: session where
  "sample_session = \<lparr>csrf_token = Some ''0123456789abcdef0123456789abcdef'', form_time = Some 1000\<rparr>"

definition sample_state :: app_state where
  "sample_state = \<lparr>request_log = Map.empty, session = sample_session\<rparr>"

definition full_state :: app_state where
  "full_state =
     \<lparr>request_log = [''203.0.113.7'' \<mapsto> [1000, 1001, 1002, 1003, 1004]],
      session = sample_session\<rparr>"

text \<open>A care request that is valid in every field, and a POST that carries it.\<close>

definition sample_care_payload :: "(string \<times> json) list" where
  "sample_care_payload =
     [(''csrf_token'', JStr ''0123456789abcdef0123456789abcdef''),
      (''full_name'', JStr ''Jane Doe''),
      (''phone'', JStr ''555-1212''),
      (''email'', JStr ''jane@example.com''),
      (''address'', JStr ''1 Main St''),
      (''start_date'', JStr ''2025-01-01''),
      (''care_type'', JStr ''Companionship'')]"

definition post_json :: "string \<Rightarrow> string option \<Rightarrow> (string \<times> json) list \<Rightarrow> request" where
  "post_json ep addr payload =
     \<lparr>endpoint = ep, http_method = ''POST'', x_forwarded_for = None, remote_addr = addr,
      is_json = True, json_body = Some (JObj payload)\<rparr>"


definition null_name_payload :: "(string \<times> json) list" where
  "null_name_payload =
     [(''csrf_token'', JStr ''0123456789abcdef0123456789abcdef''),
      (''full_name'', JNull),
      (''phone'', JStr ''555-1212''),
      (''email'', JStr ''jane@example.com''),
      (''address'', JStr ''1 Main St''),
      (''start_date'', JStr ''2025-01-01''),
      (''care_type'', JStr ''Companionship'')]"

definition number_phone_payload :: "(string \<times> json) list" where
  "number_phone_payload =
     [(''csrf_token'', JStr ''0123456789abcdef0123456789abcdef''),
      (''full_name'', JStr ''Jane Doe''),
      (''email'', JStr ''jane@example.com''),
      (''phone'', JNum 5551212),
      (''preferred_date'', JStr ''2025-01-01''),
      (''preferred_time'', JStr ''10:00'')]"


definition bad_port_outside :: outside where
  "bad_port_outside = sample_outside\<lparr>environ := sample_environ(''MAIL_PORT'' \<mapsto> ''smtp'')\<rparr>"

section \<open>Properties of the rate limiter\<close>

lemma popleft_expired_dropWhile:
  "popleft_expired now_ts w = dropWhile (\<lambda>t. now_ts - t > RATE_LIMIT_WINDOW) w"
  by (induction w) simp_all

lemma length_popleft_expired: "length (popleft_expired now_ts w) \<le> length w"
  by (simp add: popleft_expired_dropWhile length_dropWhile_le)

lemma window_of_upd: "window_of (rl(ip \<mapsto> w)) ip' = (if ip' = ip then w else window_of rl ip')"
  by (simp add: window_of_def)

lemma is_rate_limited_unfold:
  "is_rate_limited ip now_ts rl =
     (let w = popleft_expired now_ts (window_of rl ip) in
      if length w \<ge> RATE_LIMIT_MAX then (True, rl(ip \<mapsto> w))
      else (False, rl(ip \<mapsto> w @ [now_ts])))"
  by (simp add: is_rate_limited_def clear_expired_def window_of_upd Let_def)

lemma popleft_expired_keep:
  "w = [] \<or> now_ts - hd w \<le> RATE_LIMIT_WINDOW \<Longrightarrow> popleft_expired now_ts w = w"
  by (cases w) auto

lemma popleft_expired_first:
  "w \<noteq> [] \<Longrightarrow> now_ts - hd w > RATE_LIMIT_WINDOW \<Longrightarrow> length (popleft_expired now_ts w) < length w"
proof (cases w)
  case Nil
  assume "w \<noteq> []"
  with Nil show ?thesis by simp
next
  case (Cons t w')
  assume "now_ts - hd w > RATE_LIMIT_WINDOW"
  with Cons have "popleft_expired now_ts w = popleft_expired now_ts w'" by simp
  moreover have "length (popleft_expired now_ts w') \<le> length w'"
    by (rule length_popleft_expired)
  ultimately show ?thesis using Cons by simp
qed

lemma full_window_rejects:
  assumes "length (window_of rl ip) \<ge> RATE_LIMIT_MAX"
    and "now_ts - hd (window_of rl ip) \<le> RATE_LIMIT_WINDOW"
  shows "is_rate_limited ip now_ts rl = (True, rl(ip \<mapsto> window_of rl ip))"
proof -
  have "popleft_expired now_ts (window_of rl ip) = window_of rl ip"
    using assms(2) by (simp add: popleft_expired_keep)
  then show ?thesis using assms(1) by (simp add: is_rate_limited_unfold)
qed

lemma expired_first_admits:
  assumes "length (window_of rl ip) \<le> RATE_LIMIT_MAX"
    and "window_of rl ip \<noteq> []"
    and "now_ts - hd (window_of rl ip) > RATE_LIMIT_WINDOW"
  shows "is_rate_limited ip now_ts rl =
           (False, rl(ip \<mapsto> popleft_expired now_ts (window_of rl ip) @ [now_ts]))"
proof -
  have "length (popleft_expired now_ts (window_of rl ip)) < length (window_of rl ip)"
    using assms(2,3) by (rule popleft_expired_first)
  with assms(1) have "\<not> length (popleft_expired now_ts (window_of rl ip)) \<ge> RATE_LIMIT_MAX"
    by simp
  then show ?thesis by (simp add: is_rate_limited_unfold)
qed

lemma limited_seq_within:
  "window_of rl ip = w \<Longrightarrow> length w + length ts \<le> RATE_LIMIT_MAX \<Longrightarrow>
   \<forall>t\<in>set ts. t - hd (w @ ts) \<le> RATE_LIMIT_WINDOW \<Longrightarrow>
   fst (limited_seq ip ts rl) = replicate (length ts) False \<and>
   window_of (snd (limited_seq ip ts rl)) ip = w @ ts"
proof (induction ts arbitrary: rl w)
  case Nil
  then show ?case by simp
next
  case (Cons t ts)
  have keep: "popleft_expired t w = w"
  proof (rule popleft_expired_keep)
    show "w = [] \<or> t - hd w \<le> RATE_LIMIT_WINDOW"
      using Cons.prems(3) by (cases w) auto
  qed
  have short: "\<not> length w \<ge> RATE_LIMIT_MAX" using Cons.prems(2) by simp
  have step: "is_rate_limited ip t rl = (False, rl(ip \<mapsto> w @ [t]))"
    using keep short Cons.prems(1) by (simp add: is_rate_limited_unfold)
  have w1: "window_of (rl(ip \<mapsto> w @ [t])) ip = w @ [t]" by (simp add: window_of_upd)
  have l1: "length (w @ [t]) + length ts \<le> RATE_LIMIT_MAX" using Cons.prems(2) by simp
  have b1: "\<forall>u\<in>set ts. u - hd ((w @ [t]) @ ts) \<le> RATE_LIMIT_WINDOW"
    using Cons.prems(3) by simp
  obtain bs rl2 where rest: "limited_seq ip ts (rl(ip \<mapsto> w @ [t])) = (bs, rl2)"
    by (cases "limited_seq ip ts (rl(ip \<mapsto> w @ [t]))")
  have "fst (limited_seq ip ts (rl(ip \<mapsto> w @ [t]))) = replicate (length ts) False \<and>
        window_of (snd (limited_seq ip ts (rl(ip \<mapsto> w @ [t])))) ip = (w @ [t]) @ ts"
    by (rule Cons.IH [OF w1 l1 b1])
  then have "bs = replicate (length ts) False" and "window_of rl2 ip = w @ t # ts"
    by (simp_all add: rest)
  moreover have "limited_seq ip (t # ts) rl = (False # bs, rl2)"
    by (simp only: limited_seq.simps step rest prod.case)
  ultimately show ?case by simp
qed

lemma is_rate_limited_bound:
  assumes "\<forall>ip'. length (window_of rl ip') \<le> RATE_LIMIT_MAX"
  shows "length (window_of (snd (is_rate_limited ip t rl)) ip') \<le> RATE_LIMIT_MAX"
proof (cases "ip' = ip")
  case False
  then show ?thesis using assms by (simp add: is_rate_limited_unfold Let_def window_of_upd)
next
  case True
  have "length (popleft_expired t (window_of rl ip)) \<le> length (window_of rl ip)"
    by (rule length_popleft_expired)
  moreover have "length (window_of rl ip) \<le> RATE_LIMIT_MAX" using assms by simp
  ultimately show ?thesis using True
    by (simp add: is_rate_limited_unfold Let_def window_of_upd)
qed

lemma run_calls_bound:
  "\<forall>ip'. length (window_of rl ip') \<le> RATE_LIMIT_MAX \<Longrightarrow>
   length (window_of (run_calls cs rl) ip) \<le> RATE_LIMIT_MAX"
proof (induction cs arbitrary: rl)
  case Nil
  then show ?case by simp
next
  case (Cons c cs)
  obtain a t where c: "c = (a, t)" by (cases c)
  have "\<forall>ip'. length (window_of (snd (is_rate_limited a t rl)) ip') \<le> RATE_LIMIT_MAX"
    using Cons.prems by (simp add: is_rate_limited_bound)
  from Cons.IH [OF this] show ?case by (simp add: c)
qed


lemma window_of_nonempty: "window_of rl ip = w \<Longrightarrow> w \<noteq> [] \<Longrightarrow> rl ip = Some w"
  by (cases "rl ip") (simp_all add: window_of_def)

text \<open>
  Claim C4.  For every address and every clock reading, \<^verbatim>\<open>is_rate_limited\<close> first
  drops from the front of the window the run of timestamps that are more than 600
  seconds old; if 5 or more remain it reports "limited" and does not append the
  reading, otherwise it appends the reading and admits.  Consequently, after five calls
  that start from an empty window and all lie within 600 seconds of the first, all
  five are admitted and the window holds exactly them; a further call within 600
  seconds of the first is rejected and leaves the log as it is, and a further call
  more than 600 seconds after the first is admitted and recorded.
\<close>

theorem admit_check_window:
  "is_rate_limited ip now_ts rl =
     (let w = dropWhile (\<lambda>t. now_ts - t > 600) (window_of rl ip) in
      if length w \<ge> 5 then (True, rl(ip \<mapsto> w)) else (False, rl(ip \<mapsto> w @ [now_ts])))
   \<and> (window_of rl ip = [] \<and> length ts = 5 \<and> (\<forall>t\<in>set ts. t - hd ts \<le> 600) \<longrightarrow>
        fst (limited_seq ip ts rl) = replicate 5 False
        \<and> window_of (snd (limited_seq ip ts rl)) ip = ts
        \<and> (now_ts - hd ts \<le> 600 \<longrightarrow>
             is_rate_limited ip now_ts (snd (limited_seq ip ts rl))
               = (True, snd (limited_seq ip ts rl)))
        \<and> (now_ts - hd ts > 600 \<longrightarrow>
             fst (is_rate_limited ip now_ts (snd (limited_seq ip ts rl))) = False
             \<and> last (window_of (snd (is_rate_limited ip now_ts (snd (limited_seq ip ts rl)))) ip)
                 = now_ts))"
proof (intro conjI impI)
  show "is_rate_limited ip now_ts rl =
     (let w = dropWhile (\<lambda>t. now_ts - t > 600) (window_of rl ip) in
      if length w \<ge> 5 then (True, rl(ip \<mapsto> w)) else (False, rl(ip \<mapsto> w @ [now_ts])))"
    using is_rate_limited_unfold [of ip now_ts rl]
    by (simp add: popleft_expired_dropWhile RATE_LIMIT_MAX_def RATE_LIMIT_WINDOW_def)
next
  assume a: "window_of rl ip = [] \<and> length ts = 5 \<and> (\<forall>t\<in>set ts. t - hd ts \<le> 600)"
  define rl5 where "rl5 = snd (limited_seq ip ts rl)"
  have seq: "fst (limited_seq ip ts rl) = replicate (length ts) False \<and>
             window_of (snd (limited_seq ip ts rl)) ip = [] @ ts"
  proof (rule limited_seq_within)
    show "window_of rl ip = []" using a by simp
    show "length ([]::real list) + length ts \<le> RATE_LIMIT_MAX"
      using a by (simp add: RATE_LIMIT_MAX_def)
    show "\<forall>t\<in>set ts. t - hd ([] @ ts) \<le> RATE_LIMIT_WINDOW"
      using a by (simp add: RATE_LIMIT_WINDOW_def)
  qed
  show flags: "fst (limited_seq ip ts rl) = replicate 5 False" using seq a by simp
  show win: "window_of (snd (limited_seq ip ts rl)) ip = ts" using seq by simp
  have w5: "window_of rl5 ip = ts" using win by (simp add: rl5_def)
  have ne: "ts \<noteq> []" using a by auto
  have key: "rl5 ip = Some ts" using w5 ne by (rule window_of_nonempty)
  {
    assume near: "now_ts - hd ts \<le> 600"
    have "is_rate_limited ip now_ts rl5 = (True, rl5(ip \<mapsto> window_of rl5 ip))"
    proof (rule full_window_rejects)
      show "RATE_LIMIT_MAX \<le> length (window_of rl5 ip)"
        using a w5 by (simp add: RATE_LIMIT_MAX_def)
      show "now_ts - hd (window_of rl5 ip) \<le> RATE_LIMIT_WINDOW"
        using near w5 by (simp add: RATE_LIMIT_WINDOW_def)
    qed
    moreover have "rl5(ip \<mapsto> window_of rl5 ip) = rl5"
      using key w5 by (simp add: map_upd_triv)
    ultimately show "is_rate_limited ip now_ts (snd (limited_seq ip ts rl))
                      = (True, snd (limited_seq ip ts rl))"
      by (simp add: rl5_def)
  }
  {
    assume far: "now_ts - hd ts > 600"
    have adm: "is_rate_limited ip now_ts rl5 =
            (False, rl5(ip \<mapsto> popleft_expired now_ts (window_of rl5 ip) @ [now_ts]))"
    proof (rule expired_first_admits)
      show "length (window_of rl5 ip) \<le> RATE_LIMIT_MAX"
        using a w5 by (simp add: RATE_LIMIT_MAX_def)
      show "window_of rl5 ip \<noteq> []" using w5 ne by simp
      show "now_ts - hd (window_of rl5 ip) > RATE_LIMIT_WINDOW"
        using far w5 by (simp add: RATE_LIMIT_WINDOW_def)
    qed
    show "fst (is_rate_limited ip now_ts (snd (limited_seq ip ts rl))) = False"
      using adm by (simp add: rl5_def)
    show "last (window_of (snd (is_rate_limited ip now_ts (snd (limited_seq ip ts rl)))) ip)
            = now_ts"
      using adm by (simp add: rl5_def window_of_upd)
  }
qed

theorem admit_check_window_witness:
  "fst (limited_seq ''203.0.113.7'' [0, 100, 200, 300, 400] Map.empty) = replicate 5 False
   \<and> is_rate_limited ''203.0.113.7'' 600 (snd (limited_seq ''203.0.113.7'' [0, 100, 200, 300, 400] Map.empty))
       = (True, snd (limited_seq ''203.0.113.7'' [0, 100, 200, 300, 400] Map.empty))
   \<and> fst (is_rate_limited ''203.0.113.7'' 601 (snd (limited_seq ''203.0.113.7'' [0, 100, 200, 300, 400] Map.empty)))
       = False"
  using admit_check_window [of "''203.0.113.7''" 600 Map.empty "[0, 100, 200, 300, 400]"]
        admit_check_window [of "''203.0.113.7''" 601 Map.empty "[0, 100, 200, 300, 400]"]
  by (simp add: window_of_def)

text \<open>
  Claim C9.  After any sequence of calls of \<^verbatim>\<open>is_rate_limited\<close>, for any addresses
  and clock readings, that starts from the empty log, the window stored for any address
  holds at most 5 timestamps.
\<close>

theorem window_never_exceeds_max:
  "length (window_of (run_calls calls Map.empty) ip) \<le> 5"
proof -
  have "\<forall>ip'. length (window_of Map.empty ip') \<le> RATE_LIMIT_MAX"
    by (simp add: window_of_def)
  then have "length (window_of (run_calls calls Map.empty) ip) \<le> RATE_LIMIT_MAX"
    by (rule run_calls_bound)
  then show ?thesis by (simp add: RATE_LIMIT_MAX_def)
qed

theorem window_never_exceeds_max_witness:
  "length (window_of (run_calls [(''203.0.113.7'', 0), (''203.0.113.7'', 1), (''203.0.113.7'', 2),
                                 (''203.0.113.7'', 3), (''203.0.113.7'', 4), (''203.0.113.7'', 5),
                                 (''198.51.100.2'', 6)] Map.empty) ''203.0.113.7'') \<le> 5"
  by (rule window_never_exceeds_max)

section \<open>Properties of the handlers\<close>

lemma respond_eq:
  "respond code ok msg errs w st = (json_response code ok msg errs w, after_issue w st)"
  by (simp add: respond_def issue_csrf_token_def json_response_def after_issue_def)

lemma request_log_after_issue: "request_log (after_issue w st) = request_log st"
  by (simp add: after_issue_def)


lemma after_issue_log_upd:
  "session (after_issue w (st\<lparr>request_log := rl\<rparr>)) = session (after_issue w st)"
  by (simp add: after_issue_def)

lemma submission_Inr:
  "submission hp rf ks send req w st = (Inr r, st') \<Longrightarrow>
     st' = after_issue w st \<and> resp_csrf_token r = token_hex w"
  by (auto simp: submission_def respond_eq json_response_def
           split: if_splits option.splits json.splits sum.splits prod.splits)

lemma submission_Inl:
  "submission hp rf ks send req w st = (Inl e, st') \<Longrightarrow> st' = st"
  by (auto simp: submission_def respond_eq
           split: if_splits option.splits json.splits sum.splits prod.splits)


lemma hook_None:
  "apply_simple_rate_limit req w st = (None, st') \<Longrightarrow> session st' = session st"
  by (auto simp: apply_simple_rate_limit_def respond_eq
           split: if_splits option.splits prod.splits)

lemma hook_other_endpoint:
  "endpoint req \<noteq> ''request_care'' \<or> http_method req \<noteq> ''POST'' \<Longrightarrow>
     apply_simple_rate_limit req w st = (None, st)"
  by (auto simp: apply_simple_rate_limit_def)


lemma field_errors_sample: "field_errors sample_care_payload care_required_fields = Inr []"
  by (simp add: field_errors_def sample_care_payload_def care_required_fields_def
        dict_get_default_def strip_def isspace_def EMAIL_REGEX_match_def EMAIL_REGEX_def
        one_or_more_def not_at_space_def)

lemma sanitize_keys_sample:
  "sanitize_keys sample_care_payload
     [''full_name'', ''phone'', ''email'', ''address'', ''start_date'', ''care_type'', ''notes''] []
   = Inr [(''full_name'', ''Jane Doe''), (''phone'', ''555-1212''), (''email'', ''jane@example.com''),
          (''address'', ''1 Main St''), (''start_date'', ''2025-01-01''),
          (''care_type'', ''Companionship''), (''notes'', [])]"
  by (simp add: sample_care_payload_def dict_get_default_def sanitize_def strip_def isspace_def)



lemma serve_request_care:
  "endpoint req = ''request_care'' \<Longrightarrow>
   serve req w st =
     (case apply_simple_rate_limit req w st of
        (Some r, st1) \<Rightarrow> (Inr (JsonReply r), st1)
      | (None, st1) \<Rightarrow>
          (case request_care req w st1 of (r, st2) \<Rightarrow> (map_sum id JsonReply r, st2)))"
  by (simp add: serve_def split: prod.splits option.splits)

lemma serve_submit_appointment:
  "endpoint req = ''submit_appointment'' \<Longrightarrow>
   serve req w st =
     (case submit_appointment req w st of (r, st2) \<Rightarrow> (map_sum id JsonReply r, st2))"
  by (simp add: serve_def hook_other_endpoint split: prod.splits option.splits)



lemma hook_sample:
  "apply_simple_rate_limit (post_json ''request_care'' (Some ''203.0.113.7'') payload)
     sample_outside sample_state
   = (None, sample_state\<lparr>request_log := [''203.0.113.7'' \<mapsto> [1005]]\<rparr>)"
  by (simp add: apply_simple_rate_limit_def post_json_def client_ip_def is_rate_limited_unfold
        sample_outside_def sample_state_def window_of_def RATE_LIMIT_MAX_def)


text \<open>
  Claim C6.  On both submission endpoints, a JSON submission that the rate-limit hook
  lets through, whose honeypot field is empty and whose token matches the session's, is
  rejected with "Submission too quick; suspected bot." whenever the clock reading minus
  the session's issue time is below 3 seconds.  The payload is arbitrary otherwise, so
  the outcome does not depend on the form fields, valid or not: they are not looked at.
\<close>

theorem too_quick_rejected:
  assumes "endpoint req = ''request_care'' \<and> hp = ''service_interest''
           \<or> endpoint req = ''submit_appointment'' \<and> hp = ''appointment_guard''"
    and "apply_simple_rate_limit req w st = (None, st1)"
    and "is_json req" and "json_body req = Some (JObj payload)"
    and "\<not> truthy (dict_get payload hp)"
    and "\<not> token_mismatch (dict_get payload ''csrf_token'') (csrf_token (session st))"
    and "form_time (session st) = Some issued"
    and "now_check w - of_int issued < 3"
  shows "serve req w st
         = (Inr (JsonReply (json_response 400 False ''Submission too quick; suspected bot.'' None w)),
            after_issue w st1)"
proof -
  have s1: "session st1 = session st" using assms(2) by (rule hook_None)
  have quick: "too_quick (form_time (session st1)) (now_check w)"
    using assms(7,8) s1 by (simp add: too_quick_def)
  have sub: "submission hp rf ks send req w st1
         = (Inr (json_response 400 False ''Submission too quick; suspected bot.'' None w),
            after_issue w st1)" for rf ks send
    using assms(3-6) s1 quick
    by (cases "payload = []") (simp_all add: submission_def respond_eq)
  from assms(1) show ?thesis
  proof
    assume a: "endpoint req = ''request_care'' \<and> hp = ''service_interest''"
    then show ?thesis
      using assms(2) sub by (simp add: serve_request_care request_care_def)
  next
    assume a: "endpoint req = ''submit_appointment'' \<and> hp = ''appointment_guard''"
    then have "apply_simple_rate_limit req w st = (None, st)"
      by (simp add: hook_other_endpoint)
    with assms(2) have "st1 = st" by simp
    with a show ?thesis
      using sub by (simp add: serve_submit_appointment submit_appointment_def)
  qed
qed

theorem too_quick_rejected_witness:
  "serve (post_json ''request_care'' (Some ''203.0.113.7'') sample_care_payload)
     (sample_outside\<lparr>now_check := 1002\<rparr>) sample_state
   = (Inr (JsonReply (json_response 400 False ''Submission too quick; suspected bot.'' None
                        (sample_outside\<lparr>now_check := 1002\<rparr>))),
      after_issue (sample_outside\<lparr>now_check := 1002\<rparr>)
        (sample_state\<lparr>request_log := [''203.0.113.7'' \<mapsto> [1005]]\<rparr>))"
proof (rule too_quick_rejected [where hp = "''service_interest''" and issued = 1000])
  show "endpoint (post_json ''request_care'' (Some ''203.0.113.7'') sample_care_payload) = ''request_care''
          \<and> ''service_interest'' = ''service_interest''
        \<or> endpoint (post_json ''request_care'' (Some ''203.0.113.7'') sample_care_payload)
             = ''submit_appointment'' \<and> ''service_interest'' = ''appointment_guard''"
    by (simp add: post_json_def)
  show "apply_simple_rate_limit (post_json ''request_care'' (Some ''203.0.113.7'') sample_care_payload)
          (sample_outside\<lparr>now_check := 1002\<rparr>) sample_state
        = (None, sample_state\<lparr>request_log := [''203.0.113.7'' \<mapsto> [1005]]\<rparr>)"
    by (simp add: apply_simple_rate_limit_def post_json_def client_ip_def is_rate_limited_unfold
        sample_outside_def sample_state_def window_of_def RATE_LIMIT_MAX_def)
  show "is_json (post_json ''request_care'' (Some ''203.0.113.7'') sample_care_payload)"
    by (simp add: post_json_def)
  show "json_body (post_json ''request_care'' (Some ''203.0.113.7'') sample_care_payload)
          = Some (JObj sample_care_payload)"
    by (simp add: post_json_def)
  show "\<not> truthy (dict_get sample_care_payload ''service_interest'')"
    by (simp add: dict_get_def sample_care_payload_def)
  show "\<not> token_mismatch (dict_get sample_care_payload ''csrf_token'')
            (csrf_token (session sample_state))"
    by (simp add: token_mismatch_def dict_get_def sample_care_payload_def sample_state_def
          sample_session_def)
  show "form_time (session sample_state) = Some 1000"
    by (simp add: sample_state_def sample_session_def)
  show "now_check (sample_outside\<lparr>now_check := 1002\<rparr>) - real_of_int 1000 < 3"
    by simp
qed

section \<open>Where the rate limit applies\<close>

lemma request_log_submission:
  "request_log (snd (submission hp rf ks send req w st)) = request_log st"
proof (cases "submission hp rf ks send req w st")
  case (Pair x st')
  show ?thesis
  proof (cases x)
    case (Inl e)
    with Pair have "st' = st" by (simp add: submission_Inl)
    with Pair show ?thesis by simp
  next
    case (Inr r)
    with Pair have "st' = after_issue w st" using submission_Inr by blast
    with Pair show ?thesis by (simp add: request_log_after_issue)
  qed
qed

lemma request_log_serve_unlimited:
  assumes "apply_simple_rate_limit req w st = (None, st)"
  shows "request_log (snd (serve req w st)) = request_log st"
proof -
  have a: "request_log (snd (case submission hp rf ks send req w st of
                               (r, st2) \<Rightarrow> (map_sum id JsonReply r, st2))) = request_log st"
    for hp rf ks send
    using request_log_submission [of hp rf ks send req w st]
    by (cases "submission hp rf ks send req w st") simp
  have b: "request_log (snd (case page_with_token t w st of (p, st2) \<Rightarrow> (Inr p :: exn + reply, st2)))
             = request_log st" for t
    by (simp add: page_with_token_def issue_csrf_token_def split: prod.splits)
  show ?thesis
    unfolding serve_def assms
    by (simp add: a b request_care_def submit_appointment_def)
qed

lemma hook_limited:
  assumes "endpoint req = ''request_care''" "http_method req = ''POST''"
    and "client_ip req = Some ip" "ip \<noteq> []"
    and "fst (is_rate_limited ip (now_limit w) (request_log st))"
  shows "apply_simple_rate_limit req w st
         = (Some (json_response 429 False ''Too many requests. Please try later.'' None w),
            after_issue w (st\<lparr>request_log := snd (is_rate_limited ip (now_limit w) (request_log st))\<rparr>))"
  using assms
  by (cases "is_rate_limited ip (now_limit w) (request_log st)")
     (simp add: apply_simple_rate_limit_def respond_eq)

lemma hook_admitted:
  assumes "endpoint req = ''request_care''" "http_method req = ''POST''"
    and "client_ip req = Some ip" "ip \<noteq> []"
    and "\<not> fst (is_rate_limited ip (now_limit w) (request_log st))"
  shows "apply_simple_rate_limit req w st
         = (None, st\<lparr>request_log := snd (is_rate_limited ip (now_limit w) (request_log st))\<rparr>)"
  using assms
  by (cases "is_rate_limited ip (now_limit w) (request_log st)")
     (simp add: apply_simple_rate_limit_def)

lemma hook_no_address:
  assumes "client_ip req = None \<or> client_ip req = Some []"
  shows "apply_simple_rate_limit req w st = (None, st)"
  using assms by (auto simp: apply_simple_rate_limit_def)

text \<open>
  Claim C1, as amended.  For a POST to the care-request endpoint whose client address
  (the forwarded-for header, else the peer address) is a non-empty string, the hook
  asks the limiter under that address before the handler runs: when the limiter
  reports "limited", the request is answered 429 with a reissued token whatever its
  body is, and otherwise the handler receives the log with the request recorded in it.
  A request whose method is not POST never reaches the limiter, and serving it leaves
  the log as it was.
\<close>

theorem rate_limit_hook_scope:
  "(endpoint req = ''request_care'' \<and> http_method req = ''POST''
      \<and> client_ip req = Some ip \<and> ip \<noteq> [] \<longrightarrow>
      (fst (is_rate_limited ip (now_limit w) (request_log st)) \<longrightarrow>
         serve req w st
         = (Inr (JsonReply (json_response 429 False ''Too many requests. Please try later.'' None w)),
            after_issue w (st\<lparr>request_log := snd (is_rate_limited ip (now_limit w) (request_log st))\<rparr>)))
      \<and> (\<not> fst (is_rate_limited ip (now_limit w) (request_log st)) \<longrightarrow>
         apply_simple_rate_limit req w st
         = (None, st\<lparr>request_log := snd (is_rate_limited ip (now_limit w) (request_log st))\<rparr>)))
   \<and> (http_method req \<noteq> ''POST'' \<longrightarrow>
        apply_simple_rate_limit req w st = (None, st)
        \<and> request_log (snd (serve req w st)) = request_log st)"
proof (intro conjI impI)
  assume a: "endpoint req = ''request_care'' \<and> http_method req = ''POST''
      \<and> client_ip req = Some ip \<and> ip \<noteq> []"
    and l: "fst (is_rate_limited ip (now_limit w) (request_log st))"
  from a l have "apply_simple_rate_limit req w st
         = (Some (json_response 429 False ''Too many requests. Please try later.'' None w),
            after_issue w (st\<lparr>request_log := snd (is_rate_limited ip (now_limit w) (request_log st))\<rparr>))"
    by (intro hook_limited) simp_all
  then show "serve req w st
         = (Inr (JsonReply (json_response 429 False ''Too many requests. Please try later.'' None w)),
            after_issue w (st\<lparr>request_log := snd (is_rate_limited ip (now_limit w) (request_log st))\<rparr>))"
    by (simp add: serve_def)
next
  assume a: "endpoint req = ''request_care'' \<and> http_method req = ''POST''
      \<and> client_ip req = Some ip \<and> ip \<noteq> []"
    and l: "\<not> fst (is_rate_limited ip (now_limit w) (request_log st))"
  from a l show "apply_simple_rate_limit req w st
         = (None, st\<lparr>request_log := snd (is_rate_limited ip (now_limit w) (request_log st))\<rparr>)"
    by (intro hook_admitted) simp_all
next
  assume g: "http_method req \<noteq> ''POST''"
  then show h: "apply_simple_rate_limit req w st = (None, st)"
    by (simp add: hook_other_endpoint)
  then show "request_log (snd (serve req w st)) = request_log st"
    by (rule request_log_serve_unlimited)
qed


lemma full_state_limited:
  "is_rate_limited ''203.0.113.7'' (now_limit sample_outside) (request_log full_state)
   = (True, request_log full_state)"
proof -
  have "is_rate_limited ''203.0.113.7'' 1005 [''203.0.113.7'' \<mapsto> [1000, 1001, 1002, 1003, 1004]]
        = (True, [''203.0.113.7'' \<mapsto> [1000, 1001, 1002, 1003, 1004]])"
    by (simp add: is_rate_limited_unfold window_of_def RATE_LIMIT_MAX_def RATE_LIMIT_WINDOW_def)
  then show ?thesis by (simp add: full_state_def sample_outside_def)
qed

theorem rate_limit_hook_scope_witness:
  "serve (post_json ''request_care'' (Some ''203.0.113.7'') sample_care_payload)
     sample_outside full_state
   = (Inr (JsonReply (json_response 429 False ''Too many requests. Please try later.'' None
                        sample_outside)),
      after_issue sample_outside full_state)
   \<and> apply_simple_rate_limit
        \<lparr>endpoint = ''index'', http_method = ''GET'', x_forwarded_for = None,
         remote_addr = Some ''203.0.113.7'', is_json = False, json_body = None\<rparr>
        sample_outside full_state
      = (None, full_state)"
proof -
  let ?req = "post_json ''request_care'' (Some ''203.0.113.7'') sample_care_payload"
  let ?get = "\<lparr>endpoint = ''index'', http_method = ''GET'', x_forwarded_for = None,
         remote_addr = Some ''203.0.113.7'', is_json = False, json_body = None\<rparr>"
  have pre: "endpoint ?req = ''request_care'' \<and> http_method ?req = ''POST''
      \<and> client_ip ?req = Some ''203.0.113.7'' \<and> ''203.0.113.7'' \<noteq> []"
    by (simp add: post_json_def client_ip_def)
  have lim: "fst (is_rate_limited ''203.0.113.7'' (now_limit sample_outside) (request_log full_state))"
    by (simp add: full_state_limited)
  have same: "full_state\<lparr>request_log :=
      snd (is_rate_limited ''203.0.113.7'' (now_limit sample_outside) (request_log full_state))\<rparr>
      = full_state"
    by (simp add: full_state_limited)
  have g: "http_method ?get \<noteq> ''POST''" by simp
  from rate_limit_hook_scope [of ?req "''203.0.113.7''" sample_outside full_state] pre lim same
  have one: "serve ?req sample_outside full_state
   = (Inr (JsonReply (json_response 429 False ''Too many requests. Please try later.'' None
                        sample_outside)),
      after_issue sample_outside full_state)"
    by simp
  from rate_limit_hook_scope [of ?get "''203.0.113.7''" sample_outside full_state] g
  have two: "apply_simple_rate_limit ?get sample_outside full_state = (None, full_state)"
    by blast
  from one two show ?thesis by blast
qed

text \<open>
  Claim C1 as stated fails.  With the window of an address full, a POST to the
  appointment endpoint from that address passes the hook and leaves the log untouched,
  and so does a POST to the care-request endpoint whose forwarded-for header is empty;
  the same POST to the care-request endpoint under the address itself is answered 429.
\<close>

theorem rate_limit_not_applied_counterexample:
  "apply_simple_rate_limit (post_json ''submit_appointment'' (Some ''203.0.113.7'') [])
     sample_outside full_state
   = (None, full_state)
   \<and> apply_simple_rate_limit
        \<lparr>endpoint = ''request_care'', http_method = ''POST'', x_forwarded_for = Some [],
         remote_addr = Some ''203.0.113.7'', is_json = True, json_body = Some (JObj [])\<rparr>
        sample_outside full_state
      = (None, full_state)
   \<and> fst (apply_simple_rate_limit (post_json ''request_care'' (Some ''203.0.113.7'') [])
            sample_outside full_state)
      = Some (json_response 429 False ''Too many requests. Please try later.'' None sample_outside)"
proof (intro conjI)
  show "apply_simple_rate_limit (post_json ''submit_appointment'' (Some ''203.0.113.7'') [])
     sample_outside full_state = (None, full_state)"
    by (simp add: apply_simple_rate_limit_def post_json_def)
  show "apply_simple_rate_limit
        \<lparr>endpoint = ''request_care'', http_method = ''POST'', x_forwarded_for = Some [],
         remote_addr = Some ''203.0.113.7'', is_json = True, json_body = Some (JObj [])\<rparr>
        sample_outside full_state
      = (None, full_state)"
    by (simp add: apply_simple_rate_limit_def client_ip_def)
  have "apply_simple_rate_limit (post_json ''request_care'' (Some ''203.0.113.7'') [])
            sample_outside full_state
        = (Some (json_response 429 False ''Too many requests. Please try later.'' None sample_outside),
           after_issue sample_outside (full_state\<lparr>request_log :=
             snd (is_rate_limited ''203.0.113.7'' (now_limit sample_outside) (request_log full_state))\<rparr>))"
    by (rule hook_limited) (simp_all add: post_json_def client_ip_def full_state_limited)
  then show "fst (apply_simple_rate_limit (post_json ''request_care'' (Some ''203.0.113.7'') [])
            sample_outside full_state)
      = Some (json_response 429 False ''Too many requests. Please try later.'' None sample_outside)"
    by simp
qed

section \<open>The honeypot and the missing client address\<close>

lemma submission_honeypot:
  assumes "is_json req" "json_body req = Some (JObj payload)" "truthy (dict_get payload hp)"
  shows "submission hp rf ks send req w st
         = (Inr (json_response 400 False ''Invalid submission.'' None w), after_issue w st)"
proof -
  have "payload \<noteq> []" using assms(3) by (auto simp: dict_get_def)
  then show ?thesis using assms by (simp add: submission_def respond_eq)
qed

text \<open>
  Claim C2, as amended.  On both submission endpoints, a JSON submission whose
  honeypot field is truthy is answered by the hook if the hook answers at all, and
  otherwise is rejected by the handler with "Invalid submission." and a reissued token,
  whatever its token, its timing and its fields are.  The hook runs before the handler:
  on the care-request endpoint, for a non-empty client address that the limiter admits,
  the window of that address afterwards ends with this request's timestamp, so the
  rejected submission has used up one place of the window.
\<close>

theorem honeypot_after_rate_limit:
  assumes "endpoint req = ''request_care'' \<and> hp = ''service_interest''
           \<or> endpoint req = ''submit_appointment'' \<and> hp = ''appointment_guard''"
    and "is_json req" and "json_body req = Some (JObj payload)"
    and "truthy (dict_get payload hp)"
  shows "serve req w st =
           (case apply_simple_rate_limit req w st of
              (Some r, st1) \<Rightarrow> (Inr (JsonReply r), st1)
            | (None, st1) \<Rightarrow>
                (Inr (JsonReply (json_response 400 False ''Invalid submission.'' None w)),
                 after_issue w st1))
         \<and> (endpoint req = ''request_care'' \<and> http_method req = ''POST''
              \<and> client_ip req = Some ip \<and> ip \<noteq> []
              \<and> \<not> fst (is_rate_limited ip (now_limit w) (request_log st)) \<longrightarrow>
             window_of (request_log (snd (serve req w st))) ip
               = popleft_expired (now_limit w) (window_of (request_log st) ip) @ [now_limit w])"
proof -
  have sub: "submission hp rf ks send req w st1
         = (Inr (json_response 400 False ''Invalid submission.'' None w), after_issue w st1)"
    for rf ks send st1
    using assms(2-4) by (rule submission_honeypot)
  obtain h st1 where hk: "apply_simple_rate_limit req w st = (h, st1)"
    by (cases "apply_simple_rate_limit req w st")
  have first: "serve req w st =
           (case apply_simple_rate_limit req w st of
              (Some r, st1) \<Rightarrow> (Inr (JsonReply r), st1)
            | (None, st1) \<Rightarrow>
                (Inr (JsonReply (json_response 400 False ''Invalid submission.'' None w)),
                 after_issue w st1))"
    using assms(1)
  proof
    assume "endpoint req = ''request_care'' \<and> hp = ''service_interest''"
    then show ?thesis
      using sub by (cases h) (simp_all add: serve_request_care hk request_care_def)
  next
    assume a: "endpoint req = ''submit_appointment'' \<and> hp = ''appointment_guard''"
    then have "apply_simple_rate_limit req w st = (None, st)"
      by (simp add: hook_other_endpoint)
    with a show ?thesis
      using sub by (simp add: serve_submit_appointment submit_appointment_def)
  qed
  {
    assume b: "endpoint req = ''request_care'' \<and> http_method req = ''POST''
              \<and> client_ip req = Some ip \<and> ip \<noteq> []
              \<and> \<not> fst (is_rate_limited ip (now_limit w) (request_log st))"
    then have adm: "apply_simple_rate_limit req w st
         = (None, st\<lparr>request_log := snd (is_rate_limited ip (now_limit w) (request_log st))\<rparr>)"
      by (intro hook_admitted) simp_all
    have short: "\<not> RATE_LIMIT_MAX \<le> length (popleft_expired (now_limit w) (window_of (request_log st) ip))"
      using b by (auto simp: is_rate_limited_unfold Let_def split: if_splits)
    then have "snd (is_rate_limited ip (now_limit w) (request_log st))
          = (request_log st)(ip \<mapsto> popleft_expired (now_limit w) (window_of (request_log st) ip) @ [now_limit w])"
      by (simp add: is_rate_limited_unfold Let_def)
    then have "window_of (request_log (snd (serve req w st))) ip
               = popleft_expired (now_limit w) (window_of (request_log st) ip) @ [now_limit w]"
      by (simp add: first adm request_log_after_issue window_of_upd)
  }
  with first show ?thesis by blast
qed

theorem honeypot_after_rate_limit_witness:
  "serve (post_json ''request_care'' (Some ''203.0.113.7'') [(''service_interest'', JStr ''x'')])
     sample_outside full_state
   = (Inr (JsonReply (json_response 429 False ''Too many requests. Please try later.'' None
                        sample_outside)),
      after_issue sample_outside full_state)
   \<and> window_of
        (request_log
          (snd (serve (post_json ''request_care'' (Some ''203.0.113.7'')
                         [(''service_interest'', JStr ''x'')])
                  sample_outside sample_state)))
        ''203.0.113.7''
      = [] @ [1005]"
proof -
  let ?req = "post_json ''request_care'' (Some ''203.0.113.7'') [(''service_interest'', JStr ''x'')]"
  have ep: "endpoint ?req = ''request_care'' \<and> ''service_interest'' = ''service_interest''
           \<or> endpoint ?req = ''submit_appointment'' \<and> ''service_interest'' = ''appointment_guard''"
    by (simp add: post_json_def)
  have j: "is_json ?req" and b: "json_body ?req = Some (JObj [(''service_interest'', JStr ''x'')])"
    by (simp_all add: post_json_def)
  have t: "truthy (dict_get [(''service_interest'', JStr ''x'')] ''service_interest'')"
    by (simp add: dict_get_def)
  have hk: "apply_simple_rate_limit ?req sample_outside full_state
        = (Some (json_response 429 False ''Too many requests. Please try later.'' None sample_outside),
           after_issue sample_outside (full_state\<lparr>request_log :=
             snd (is_rate_limited ''203.0.113.7'' (now_limit sample_outside) (request_log full_state))\<rparr>))"
    by (rule hook_limited) (simp_all add: post_json_def client_ip_def full_state_limited)
  have same: "full_state\<lparr>request_log :=
      snd (is_rate_limited ''203.0.113.7'' (now_limit sample_outside) (request_log full_state))\<rparr>
      = full_state"
    by (simp add: full_state_limited)
  from honeypot_after_rate_limit [OF ep j b t, of sample_outside full_state "''203.0.113.7''"]
  have one: "serve ?req sample_outside full_state
   = (Inr (JsonReply (json_response 429 False ''Too many requests. Please try later.'' None
                        sample_outside)),
      after_issue sample_outside full_state)"
    by (simp add: hk same)
  have adm: "\<not> fst (is_rate_limited ''203.0.113.7'' (now_limit sample_outside)
                      (request_log sample_state))"
    by (simp add: is_rate_limited_unfold window_of_def sample_state_def RATE_LIMIT_MAX_def)
  have pre: "endpoint ?req = ''request_care'' \<and> http_method ?req = ''POST''
              \<and> client_ip ?req = Some ''203.0.113.7'' \<and> ''203.0.113.7'' \<noteq> []
              \<and> \<not> fst (is_rate_limited ''203.0.113.7'' (now_limit sample_outside)
                         (request_log sample_state))"
    using adm by (simp add: post_json_def client_ip_def)
  from honeypot_after_rate_limit [OF ep j b t, of sample_outside sample_state "''203.0.113.7''"] pre
  have "window_of (request_log (snd (serve ?req sample_outside sample_state))) ''203.0.113.7''
        = popleft_expired (now_limit sample_outside)
            (window_of (request_log sample_state) ''203.0.113.7'') @ [now_limit sample_outside]"
    by blast
  moreover have "window_of (request_log sample_state) ''203.0.113.7'' = []"
    by (simp add: window_of_def sample_state_def)
  moreover have "now_limit sample_outside = 1005" by (simp add: sample_outside_def)
  ultimately have two: "window_of (request_log (snd (serve ?req sample_outside sample_state)))
        ''203.0.113.7'' = [] @ [1005]"
    by simp
  from one two show ?thesis by blast
qed

text \<open>
  Claim C2 as stated fails.  A care request with a filled honeypot field, sent from an
  address with an empty window, is rejected as "Invalid submission.", and the window of
  the address holds its timestamp afterwards.
\<close>

theorem honeypot_consumes_window_counterexample:
  "fst (serve (post_json ''request_care'' (Some ''203.0.113.7'') [(''service_interest'', JStr ''x'')])
          sample_outside sample_state)
   = Inr (JsonReply (json_response 400 False ''Invalid submission.'' None sample_outside))
   \<and> window_of (request_log sample_state) ''203.0.113.7'' = []
   \<and> window_of
        (request_log
          (snd (serve (post_json ''request_care'' (Some ''203.0.113.7'')
                         [(''service_interest'', JStr ''x'')])
                  sample_outside sample_state)))
        ''203.0.113.7''
      = [1005]"
proof -
  let ?req = "post_json ''request_care'' (Some ''203.0.113.7'') [(''service_interest'', JStr ''x'')]"
  have ep: "endpoint ?req = ''request_care''" by (simp add: post_json_def)
  have sub: "request_care ?req sample_outside st
         = (Inr (json_response 400 False ''Invalid submission.'' None sample_outside),
            after_issue sample_outside st)" for st
    unfolding request_care_def
    by (rule submission_honeypot [where payload = "[(''service_interest'', JStr ''x'')]"])
       (simp_all add: post_json_def dict_get_def)
  have sv: "serve ?req sample_outside sample_state
     = (Inr (JsonReply (json_response 400 False ''Invalid submission.'' None sample_outside)),
        after_issue sample_outside (sample_state\<lparr>request_log := [''203.0.113.7'' \<mapsto> [1005]]\<rparr>))"
    by (simp add: serve_request_care [OF ep] hook_sample sub)
  have one: "fst (serve ?req sample_outside sample_state)
     = Inr (JsonReply (json_response 400 False ''Invalid submission.'' None sample_outside))"
    by (simp add: sv)
  have two: "window_of (request_log sample_state) ''203.0.113.7'' = []"
    by (simp add: window_of_def sample_state_def)
  have three: "window_of (request_log (snd (serve ?req sample_outside sample_state)))
                 ''203.0.113.7'' = [1005]"
    by (simp add: sv request_log_after_issue window_of_def)
  from one two three show ?thesis by blast
qed

text \<open>
  Claim C3, as amended.  A POST to the care-request endpoint whose client address is
  missing or is the empty string is not rate-limited: the hook lets it through and
  leaves the whole state as it was.  No request of any kind changes what the log holds
  under the empty string, so unidentified clients share no bucket.
\<close>

theorem no_address_not_limited:
  "(endpoint req = ''request_care'' \<and> http_method req = ''POST''
      \<and> (client_ip req = None \<or> client_ip req = Some []) \<longrightarrow>
      apply_simple_rate_limit req w st = (None, st))
   \<and> request_log (snd (apply_simple_rate_limit req' w st)) [] = request_log st []"
proof (intro conjI impI)
  assume "endpoint req = ''request_care'' \<and> http_method req = ''POST''
      \<and> (client_ip req = None \<or> client_ip req = Some [])"
  then show "apply_simple_rate_limit req w st = (None, st)"
    by (intro hook_no_address) simp
next
  have key: "snd (is_rate_limited ip t rl) [] = rl []" if "ip \<noteq> []" for ip t rl
    using that by (auto simp: is_rate_limited_unfold Let_def)
  show "request_log (snd (apply_simple_rate_limit req' w st)) [] = request_log st []"
  proof (cases "client_ip req'")
    case None
    then show ?thesis by (simp add: hook_no_address)
  next
    case (Some ip)
    show ?thesis
    proof (cases "ip = []")
      case True
      with Some show ?thesis by (simp add: hook_no_address)
    next
      case False
      obtain l rl1 where r: "is_rate_limited ip (now_limit w) (request_log st) = (l, rl1)"
        by (cases "is_rate_limited ip (now_limit w) (request_log st)")
      with key [OF False, of "now_limit w" "request_log st"] have "rl1 [] = request_log st []"
        by simp
      with Some False r show ?thesis
        by (simp add: apply_simple_rate_limit_def respond_eq request_log_after_issue)
    qed
  qed
qed

theorem no_address_not_limited_witness:
  "apply_simple_rate_limit
     \<lparr>endpoint = ''request_care'', http_method = ''POST'', x_forwarded_for = None,
      remote_addr = Some [], is_json = True, json_body = Some (JObj sample_care_payload)\<rparr>
     sample_outside full_state
   = (None, full_state)"
proof -
  let ?req = "\<lparr>endpoint = ''request_care'', http_method = ''POST'', x_forwarded_for = None,
      remote_addr = Some [], is_json = True, json_body = Some (JObj sample_care_payload)\<rparr>"
  have "endpoint ?req = ''request_care'' \<and> http_method ?req = ''POST''
      \<and> (client_ip ?req = None \<or> client_ip ?req = Some [])"
    by (simp add: client_ip_def)
  with no_address_not_limited [of ?req sample_outside full_state] show ?thesis by blast
qed

text \<open>
  Claim C3 as stated fails.  A care request with neither a forwarded-for header nor a
  peer address passes the hook with the state unchanged, and the log holds nothing
  under the empty string; had the limiter been applied under the empty string, the log
  would hold the request's timestamp there.
\<close>

theorem no_address_counterexample:
  "apply_simple_rate_limit
     \<lparr>endpoint = ''request_care'', http_method = ''POST'', x_forwarded_for = None,
      remote_addr = None, is_json = True, json_body = Some (JObj sample_care_payload)\<rparr>
     sample_outside sample_state
   = (None, sample_state)
   \<and> request_log sample_state [] = None
   \<and> snd (is_rate_limited [] (now_limit sample_outside) (request_log sample_state)) []
      = Some [1005]"
  by (simp add: apply_simple_rate_limit_def client_ip_def sample_state_def sample_outside_def
        is_rate_limited_unfold window_of_def RATE_LIMIT_MAX_def)

section \<open>What a response does to the token\<close>

lemma hook_no_peer:
  "apply_simple_rate_limit (post_json ep None payload) w st = (None, st)"
  by (rule hook_no_address) (simp add: post_json_def client_ip_def)

lemma null_name_raises:
  "serve (post_json ''request_care'' None null_name_payload) sample_outside sample_state
   = (Inl AttributeError, sample_state)"
proof -
  let ?req = "post_json ''request_care'' None null_name_payload"
  have ep: "endpoint ?req = ''request_care''" by (simp add: post_json_def)
  have tok: "\<not> token_mismatch (dict_get null_name_payload ''csrf_token'')
                 (csrf_token (session sample_state))"
    by (simp add: token_mismatch_def dict_get_def null_name_payload_def sample_state_def
          sample_session_def)
  have hp: "\<not> truthy (dict_get null_name_payload ''service_interest'')"
    by (simp add: dict_get_def null_name_payload_def)
  have quick: "\<not> too_quick (form_time (session sample_state)) (now_check sample_outside)"
    by (simp add: too_quick_def sample_state_def sample_session_def sample_outside_def)
  have ne: "null_name_payload \<noteq> []" by (simp add: null_name_payload_def)
  have fe: "field_errors null_name_payload care_required_fields = Inl AttributeError"
    by (simp add: field_errors_def care_required_fields_def null_name_payload_def
          dict_get_default_def)
  have "request_care ?req sample_outside sample_state = (Inl AttributeError, sample_state)"
    unfolding request_care_def submission_def
    by (simp add: post_json_def ne hp tok quick fe)
  then show ?thesis
    by (simp add: serve_request_care [OF ep] hook_no_peer)
qed





section \<open>Field validation\<close>



section \<open>Values that are not strings\<close>

lemma strip_method_Inl: "(\<exists>e. strip_method v = Inl e) \<longleftrightarrow> \<not> is_str v"
  by (cases v) simp_all

lemma strip_method_error: "strip_method v = Inl e \<Longrightarrow> e = AttributeError"
  by (cases v) simp_all

lemma required_loop_Inl:
  "(\<exists>e. required_loop payload rf errs = Inl e)
     \<longleftrightarrow> (\<exists>k\<in>set (map fst rf). \<not> is_str (dict_get_default payload k (JStr [])))"
proof (induction rf arbitrary: errs)
  case Nil
  then show ?case by simp
next
  case (Cons fm rf)
  obtain field msg where fm: "fm = (field, msg)" by (cases fm)
  show ?case
  proof (cases "strip_method (dict_get_default payload field (JStr []))")
    case (Inl e)
    then have "\<not> is_str (dict_get_default payload field (JStr []))"
      using strip_method_Inl by blast
    with Inl fm show ?thesis by simp
  next
    case (Inr v)
    then have "is_str (dict_get_default payload field (JStr []))"
      using strip_method_Inl [of "dict_get_default payload field (JStr [])"] by auto
    with Inr fm Cons.IH show ?thesis by simp
  qed
qed

lemma required_loop_error:
  "required_loop payload rf errs = Inl e \<Longrightarrow> e = AttributeError"
proof (induction rf arbitrary: errs)
  case Nil
  then show ?case by simp
next
  case (Cons fm rf)
  obtain field msg where fm: "fm = (field, msg)" by (cases fm)
  show ?case
  proof (cases "strip_method (dict_get_default payload field (JStr []))")
    case (Inl e')
    with Cons.prems fm have "e = e'" by simp
    with Inl show ?thesis using strip_method_error by blast
  next
    case (Inr v)
    with Cons.prems fm Cons.IH show ?thesis by simp
  qed
qed

lemma field_errors_Inl:
  "(\<exists>e. field_errors payload rf = Inl e)
     \<longleftrightarrow> (\<exists>k\<in>set (map fst rf @ [''email'']).
            \<not> is_str (dict_get_default payload k (JStr [])))"
proof (cases "required_loop payload rf []")
  case (Inl e)
  then have "\<exists>k\<in>set (map fst rf). \<not> is_str (dict_get_default payload k (JStr []))"
    using required_loop_Inl [of payload rf "[]"] by blast
  with Inl show ?thesis by (auto simp: field_errors_def)
next
  case (Inr errs)
  then have all: "\<not> (\<exists>k\<in>set (map fst rf). \<not> is_str (dict_get_default payload k (JStr [])))"
    using required_loop_Inl [of payload rf "[]"] by auto
  show ?thesis
  proof (cases "strip_method (dict_get_default payload ''email'' (JStr []))")
    case (Inl e)
    then have "\<not> is_str (dict_get_default payload ''email'' (JStr []))"
      using strip_method_Inl by blast
    with Inl Inr show ?thesis by (auto simp: field_errors_def)
  next
    case r: (Inr v)
    then have "is_str (dict_get_default payload ''email'' (JStr []))"
      using strip_method_Inl [of "dict_get_default payload ''email'' (JStr [])"] by auto
    with r Inr all show ?thesis by (auto simp: field_errors_def)
  qed
qed

lemma field_errors_error: "field_errors payload rf = Inl e \<Longrightarrow> e = AttributeError"
  by (auto simp: field_errors_def split: sum.splits
           dest: required_loop_error strip_method_error)

lemma number_phone_raises:
  "serve (post_json ''submit_appointment'' None number_phone_payload) sample_outside sample_state
   = (Inl AttributeError, sample_state)"
proof -
  let ?req = "post_json ''submit_appointment'' None number_phone_payload"
  have ep: "endpoint ?req = ''submit_appointment''" by (simp add: post_json_def)
  have tok: "\<not> token_mismatch (dict_get number_phone_payload ''csrf_token'')
                 (csrf_token (session sample_state))"
    by (simp add: token_mismatch_def dict_get_def number_phone_payload_def sample_state_def
          sample_session_def)
  have hp: "\<not> truthy (dict_get number_phone_payload ''appointment_guard'')"
    by (simp add: dict_get_def number_phone_payload_def)
  have quick: "\<not> too_quick (form_time (session sample_state)) (now_check sample_outside)"
    by (simp add: too_quick_def sample_state_def sample_session_def sample_outside_def)
  have ne: "number_phone_payload \<noteq> []" by (simp add: number_phone_payload_def)
  have fe: "field_errors number_phone_payload appointment_required_fields = Inl AttributeError"
    by (simp add: field_errors_def appointment_required_fields_def number_phone_payload_def
          dict_get_default_def strip_def isspace_def)
  have "submit_appointment ?req sample_outside sample_state = (Inl AttributeError, sample_state)"
    unfolding submit_appointment_def submission_def
    by (simp add: post_json_def ne hp tok quick fe)
  then show ?thesis
    by (simp add: serve_submit_appointment [OF ep])
qed

text \<open>
  Claim C10.  There is a care request that passes the honeypot, token and timing checks
  and maps the required field \<^verbatim>\<open>full_name\<close> to \<^verbatim>\<open>null\<close>, and an appointment
  request that maps \<^verbatim>\<open>phone\<close> to a number, for which serving the request ends in
  an \<^verbatim>\<open>AttributeError\<close> and not in a response with an error set.  For every
  payload and every list of required fields, the validation raises exactly when one of
  the required fields or the email is present with a value that is not a string, and
  what it raises is \<^verbatim>\<open>AttributeError\<close>.
\<close>

theorem non_string_field_raises:
  "\<not> truthy (dict_get null_name_payload ''service_interest'')
   \<and> \<not> token_mismatch (dict_get null_name_payload ''csrf_token'')
         (csrf_token (session sample_state))
   \<and> \<not> too_quick (form_time (session sample_state)) (now_check sample_outside)
   \<and> dict_get null_name_payload ''full_name'' = JNull
   \<and> serve (post_json ''request_care'' None null_name_payload) sample_outside sample_state
      = (Inl AttributeError, sample_state)
   \<and> dict_get number_phone_payload ''phone'' = JNum 5551212
   \<and> serve (post_json ''submit_appointment'' None number_phone_payload) sample_outside
        sample_state
      = (Inl AttributeError, sample_state)
   \<and> ((\<exists>e. field_errors payload rf = Inl e)
        \<longleftrightarrow> (\<exists>k\<in>set (map fst rf @ [''email'']).
               \<not> is_str (dict_get_default payload k (JStr []))))
   \<and> (field_errors payload rf = Inl e \<longrightarrow> e = AttributeError)"
proof -
  have a: "\<not> truthy (dict_get null_name_payload ''service_interest'')"
    by (simp add: dict_get_def null_name_payload_def)
  have b: "\<not> token_mismatch (dict_get null_name_payload ''csrf_token'')
         (csrf_token (session sample_state))"
    by (simp add: token_mismatch_def dict_get_def null_name_payload_def sample_state_def
          sample_session_def)
  have c: "\<not> too_quick (form_time (session sample_state)) (now_check sample_outside)"
    by (simp add: too_quick_def sample_state_def sample_session_def sample_outside_def)
  have d: "dict_get null_name_payload ''full_name'' = JNull"
    by (simp add: dict_get_def null_name_payload_def)
  have f: "dict_get number_phone_payload ''phone'' = JNum 5551212"
    by (simp add: dict_get_def number_phone_payload_def)
  have g: "field_errors payload rf = Inl e \<longrightarrow> e = AttributeError"
    using field_errors_error by blast
  from a b c d null_name_raises f number_phone_raises field_errors_Inl [of payload rf] g
  show ?thesis by blast
qed

theorem non_string_field_raises_witness:
  "field_errors null_name_payload care_required_fields = Inl AttributeError"
proof -
  have "\<exists>k\<in>set (map fst care_required_fields @ [''email'']).
          \<not> is_str (dict_get_default null_name_payload k (JStr []))"
    by (simp add: care_required_fields_def null_name_payload_def dict_get_default_def)
  with non_string_field_raises [of null_name_payload care_required_fields]
  obtain e where e: "field_errors null_name_payload care_required_fields = Inl e"
    by blast
  with non_string_field_raises [of null_name_payload care_required_fields e]
  have "e = AttributeError" by blast
  with e show ?thesis by simp
qed

section \<open>The mail sender and its configuration\<close>

lemma int_of_str_smtp: "int_of_str ''smtp'' = None"
  by (simp add: int_of_str_def strip_def isspace_def isdigit_def)

lemma send_email_bad_port:
  "send_email bad_port_outside subject reply_to body = Inl ValueError"
  by (simp add: send_email_def bad_port_outside_def environ_get_def int_of_str_smtp)

text \<open>
  With a port that parses, a missing or empty server, user name, password or
  destination gives the failure result with its message.
\<close>

lemma send_email_missing_config:
  assumes "int_of_str (environ_get (environ w) ''MAIL_PORT'' ''587'') = Some port"
    and "\<not> nonempty (environ w ''MAIL_SERVER'') \<or> \<not> nonempty (environ w ''MAIL_USERNAME'')
         \<or> \<not> nonempty (environ w ''MAIL_PASSWORD'') \<or> \<not> nonempty (environ w ''DESTINATION_EMAIL'')"
  shows "send_email w subject reply_to body
         = Inr (False, ''Email configuration missing. Please set environment variables.'')"
  using assms by (auto simp: send_email_def Let_def)

lemma request_care_bad_port:
  assumes "session st = sample_session"
  shows "request_care (post_json ''request_care'' addr sample_care_payload) bad_port_outside st
   = (Inl ValueError, st)"
proof -
  have tok: "\<not> token_mismatch (dict_get sample_care_payload ''csrf_token'')
                 (csrf_token (session st))"
    by (simp add: token_mismatch_def dict_get_def sample_care_payload_def assms
          sample_session_def)
  have hp: "\<not> truthy (dict_get sample_care_payload ''service_interest'')"
    by (simp add: dict_get_def sample_care_payload_def)
  have quick: "\<not> too_quick (form_time (session st)) (now_check bad_port_outside)"
    by (simp add: too_quick_def assms sample_session_def sample_outside_def bad_port_outside_def)
  have ne: "sample_care_payload \<noteq> []"
    by (simp add: sample_care_payload_def)
  show ?thesis
    unfolding request_care_def submission_def
    by (simp add: post_json_def ne hp tok quick field_errors_sample sanitize_keys_sample
          send_care_request_email_def send_email_bad_port Let_def
          del: sanitize_keys.simps)
qed

text \<open>
  Claim C8 says that \<^verbatim>\<open>send_email\<close> reports every failure as a result and lets no
  exception through.  The code parses \<^verbatim>\<open>MAIL_PORT\<close> before it checks the
  configuration and outside the \<^verbatim>\<open>try\<close>: with \<^verbatim>\<open>MAIL_PORT\<close> set to
  \<^verbatim>\<open>smtp\<close> and everything else configured, \<^verbatim>\<open>send_email\<close> raises
  \<^verbatim>\<open>ValueError\<close>, and a valid care request served in that environment ends in
  that exception, with no response of the pipeline and no token issued.
\<close>

theorem send_email_raises_on_bad_port:
  "environ bad_port_outside ''MAIL_PORT'' = Some ''smtp''
   \<and> send_email bad_port_outside ''New Care Request from Jane Doe'' (Some ''jane@example.com'')
        ''Full Name: Jane Doe''
      = Inl ValueError
   \<and> serve (post_json ''request_care'' None sample_care_payload) bad_port_outside sample_state
      = (Inl ValueError, sample_state)"
proof -
  let ?req = "post_json ''request_care'' None sample_care_payload"
  have ep: "endpoint ?req = ''request_care''" by (simp add: post_json_def)
  have one: "environ bad_port_outside ''MAIL_PORT'' = Some ''smtp''"
    by (simp add: bad_port_outside_def)
  have ss: "session sample_state = sample_session" by (simp add: sample_state_def)
  have three: "serve ?req bad_port_outside sample_state = (Inl ValueError, sample_state)"
    by (simp add: serve_request_care [OF ep] hook_no_peer request_care_bad_port [OF ss])
  from one send_email_bad_port three show ?thesis by blast
qed

end
